theory Spec2Isabelle
  imports Complex_Main "HOL-Library.Product_Lexorder" "HOL-Library.List_Lexorder"
    "HOL-Library.Char_ord"
begin

section \<open>Wi-Sense: the live Wi-Fi dashboard of \<^verbatim>\<open>main.py\<close>\<close>

text \<open>
  Python floats (timestamps, dBm values, viewport limits) are modelled as \<^typ>\<open>real\<close>;
  rounding, infinities and NaN are outside the model. A Python \<^verbatim>\<open>str\<close> read from
  the diagnostic command is a list of Unicode code points (\<^typ>\<open>nat\<close>); the material and
  band names, which are constants of the program, are HOL strings. Every exception the
  source can raise is a value of \<open>py_error\<close>.
\<close>

datatype py_error = ValueError | IndexError | ZeroDivisionError | CommandError

subsection \<open>Constants\<close>

definition ROLLING_WINDOW_SEC :: real where
  "ROLLING_WINDOW_SEC = 300"

definition DISPLAY_WINDOW_SEC :: real where
  "DISPLAY_WINDOW_SEC = 60"

definition MATERIAL_COLORS :: "(string \<times> string) list" where
  "MATERIAL_COLORS =
     [(''baseline'', ''#f8f9fa''), (''wood'', ''#f4e4bc''), (''plastic'', ''#e3f2fd''),
      (''glass'', ''#f1f8e9''), (''aluminium'', ''#eceff1''), (''copper'', ''#fff3e0''),
      (''steel'', ''#fafafa'')]"

text \<open>\<^verbatim>\<open>MATERIAL_COLORS.get(material, '#ffffff')\<close>\<close>

definition material_color :: "string \<Rightarrow> string" where
  "material_color m = (case map_of MATERIAL_COLORS m of None \<Rightarrow> ''#ffffff'' | Some c \<Rightarrow> c)"

subsection \<open>The Live Data Store: class \<^verbatim>\<open>LiveData\<close>\<close>

text \<open>
  One row of \<^verbatim>\<open>csv_rows\<close>. The \<^verbatim>\<open>timestamp\<close> column holds the ISO text of an
  instant; the model keeps the instant itself.
\<close>

record csv_row =
  timestamp :: real
  band :: string
  material :: string
  rssi_dbm :: real
  noise_dbm :: real
  snr_db :: real

text \<open>
  The four deques are lists, oldest sample first. \<^verbatim>\<open>snr_by_material\<close> is a
  \<^verbatim>\<open>defaultdict(list)\<close>: a map whose missing keys read as the empty list.
  \<^verbatim>\<open>_csv_lock\<close> only serialises access and carries no data.
\<close>

record LiveData =
  window_sec :: real
  times_dq :: "real list"
  rssi :: "real list"
  noise :: "real list"
  snr :: "real list"
  snr_by_material :: "string \<rightharpoonup> real list"
  material_events :: "(real \<times> string) list"
  current_material :: string
  current_band :: string
  csv_rows :: "csv_row list"
  material_transitions :: "(real \<times> string) list"

text \<open>\<^verbatim>\<open>LiveData.__init__(window_sec)\<close>\<close>

definition LiveData_init :: "real \<Rightarrow> LiveData" where
  "LiveData_init w =
     \<lparr>window_sec = w, times_dq = [], rssi = [], noise = [], snr = [],
      snr_by_material = Map.empty, material_events = [],
      current_material = ''baseline'', current_band = ''2.4'',
      csv_rows = [], material_transitions = []\<rparr>"

text \<open>
  The eviction loop of \<^verbatim>\<open>append\<close>:
  \<^verbatim>\<open>while self.times and self.times[0] < cutoff: self.times.popleft(); self.rssi.popleft(); ...\<close>
  \<^verbatim>\<open>popleft\<close> on an empty deque raises IndexError.
\<close>

fun popleft_expired ::
  "real \<Rightarrow> real list \<Rightarrow> real list \<Rightarrow> real list \<Rightarrow> real list
     \<Rightarrow> py_error + (real list \<times> real list \<times> real list \<times> real list)" where
  "popleft_expired cutoff [] rs ns ss = Inr ([], rs, ns, ss)"
| "popleft_expired cutoff (t # ts) rs ns ss =
     (if t < cutoff then
        (case rs of [] \<Rightarrow> Inl IndexError
         | r # rs' \<Rightarrow>
            (case ns of [] \<Rightarrow> Inl IndexError
             | n # ns' \<Rightarrow>
                (case ss of [] \<Rightarrow> Inl IndexError
                 | s # ss' \<Rightarrow> popleft_expired cutoff ts rs' ns' ss')))
      else Inr (t # ts, rs, ns, ss))"

text \<open>\<^verbatim>\<open>self.snr_by_material[self.current_material].append(snr)\<close>\<close>

definition accumulate :: "(string \<rightharpoonup> real list) \<Rightarrow> string \<Rightarrow> real \<Rightarrow> (string \<rightharpoonup> real list)" where
  "accumulate acc m v = acc(m \<mapsto> (case acc m of None \<Rightarrow> [] | Some vs \<Rightarrow> vs) @ [v])"

text \<open>\<^verbatim>\<open>LiveData.append(ts, rssi, noise)\<close>\<close>

definition LiveData_append :: "LiveData \<Rightarrow> real \<Rightarrow> real \<Rightarrow> real \<Rightarrow> py_error + LiveData" where
  "LiveData_append d ts r n =
     (let s = r - n;
          cutoff = ts - window_sec d
      in case popleft_expired cutoff (times_dq d @ [ts]) (rssi d @ [r]) (noise d @ [n]) (snr d @ [s]) of
           Inl e \<Rightarrow> Inl e
         | Inr (ts', rs', ns', ss') \<Rightarrow>
             Inr (d\<lparr>times_dq := ts', rssi := rs', noise := ns', snr := ss',
                    material_transitions := filter (\<lambda>(t, m). t \<ge> cutoff) (material_transitions d),
                    snr_by_material := accumulate (snr_by_material d) (current_material d) s,
                    csv_rows := csv_rows d @
                      [\<lparr>timestamp = ts, band = current_band d, material = current_material d,
                        rssi_dbm = r, noise_dbm = n, snr_db = s\<rparr>]\<rparr>))"


text \<open>
  \<^verbatim>\<open>LiveData.clear_data()\<close>; \<open>now\<close> is the instant \<^verbatim>\<open>datetime.datetime.now()\<close> returns.
\<close>

definition clear_data :: "LiveData \<Rightarrow> real \<Rightarrow> LiveData" where
  "clear_data d now =
     d\<lparr>times_dq := [], rssi := [], noise := [], snr := [],
       snr_by_material := Map.empty, material_events := [], material_transitions := [],
       current_material := ''baseline'',
       csv_rows := csv_rows d @
         [\<lparr>timestamp = now, band = current_band d, material = ''--- CLEARED ---'',
           rssi_dbm = 0, noise_dbm = 0, snr_db = 0\<rparr>]\<rparr>"











subsection \<open>The viewport: \<^verbatim>\<open>on_scroll\<close> and \<^verbatim>\<open>on_key_press\<close>\<close>

text \<open>
  The closure variables of \<^verbatim>\<open>main\<close> that the navigation handlers read and write, with
  the x-axis limits of the chart (\<^verbatim>\<open>ax.get_xlim\<close>, \<^verbatim>\<open>ax.set_xlim\<close>).
\<close>

record view =
  xlim :: "real \<times> real"
  display_window :: real
  auto_scroll :: bool
  is_stats_view :: bool

text \<open>
  A scroll event: whether the pointer is over the chart (\<^verbatim>\<open>event.inaxes == ax\<close>), the
  wheel direction and the data coordinate under the pointer.
\<close>

record scroll_event =
  inaxes :: bool
  button :: string
  xdata :: "real option"

definition viewport_width :: "view \<Rightarrow> real" where
  "viewport_width v = snd (xlim v) - fst (xlim v)"

text \<open>
  \<^verbatim>\<open>on_scroll(event)\<close>, lines 288-316. \<^verbatim>\<open>event.xdata if event.xdata else ...\<close> takes the
  centre also when \<^verbatim>\<open>xdata\<close> is 0.0; the division by \<^verbatim>\<open>current_width\<close> has no value
  when the width is zero, which the model reports as ZeroDivisionError.
\<close>

definition on_scroll :: "view \<Rightarrow> scroll_event \<Rightarrow> py_error + view" where
  "on_scroll v event =
     (if is_stats_view v then Inr v
      else if \<not> inaxes event then Inr v
      else
        let xleft = fst (xlim v);
            xright = snd (xlim v);
            current_width = xright - xleft;
            zoom_factor = (if button event = ''down'' then 1.2 else 1 / 1.2);
            new_width = current_width * zoom_factor;
            new_width = max 10 (min new_width ROLLING_WINDOW_SEC);
            x = (case xdata event of
                   None \<Rightarrow> (xleft + xright) / 2
                 | Some x \<Rightarrow> if x = 0 then (xleft + xright) / 2 else x)
        in if current_width = 0 then Inl ZeroDivisionError
           else
             let new_xleft = x - new_width * (x - xleft) / current_width;
                 new_xright = new_xleft + new_width
             in Inr (v\<lparr>xlim := (new_xleft, new_xright), display_window := new_width,
                       auto_scroll := False\<rparr>))"

text \<open>\<^verbatim>\<open>on_key_press(event)\<close>, lines 318-362; \<open>key\<close> is \<^verbatim>\<open>event.key\<close>.\<close>

definition on_key_press :: "view \<Rightarrow> string \<Rightarrow> view" where
  "on_key_press v key =
     (if is_stats_view v then v
      else if key = ''home'' then v\<lparr>auto_scroll := True, display_window := DISPLAY_WINDOW_SEC\<rparr>
      else
        let xleft = fst (xlim v);
            xright = snd (xlim v);
            width = xright - xleft;
            center = (xleft + xright) / 2
        in if key = ''left'' then
             v\<lparr>xlim := (xleft - width * 0.1, xright - width * 0.1), auto_scroll := False\<rparr>
           else if key = ''right'' then
             v\<lparr>xlim := (xleft + width * 0.1, xright + width * 0.1), auto_scroll := False\<rparr>
           else if key = ''up'' then
             (let new_width = width * 0.8
              in v\<lparr>xlim := (center - new_width / 2, center + new_width / 2),
                    display_window := new_width, auto_scroll := False\<rparr>)
           else if key = ''down'' then
             (let new_width = min (width * 1.25) ROLLING_WINDOW_SEC
              in v\<lparr>xlim := (center - new_width / 2, center + new_width / 2),
                    display_window := new_width, auto_scroll := False\<rparr>)
           else v)"

subsection \<open>Background shading: \<^verbatim>\<open>update_background_colors\<close>\<close>

text \<open>
  What the function draws: either the face colour of the whole chart, or the list of
  shaded spans \<^verbatim>\<open>ax.axvspan(x0, x1, color=c)\<close> in drawing order.
\<close>

datatype bg_action = SetFacecolor string | Patches "(real \<times> real \<times> string) list"

text \<open>
  The loop \<^verbatim>\<open>for x_pos, material in transitions\<close> (\<open>mat\<close> is its \<^verbatim>\<open>material\<close>); it returns the spans drawn and the
  final \<^verbatim>\<open>prev_x\<close> and \<^verbatim>\<open>prev_material\<close>.
\<close>

fun shade_loop ::
  "real \<Rightarrow> string \<Rightarrow> (real \<times> string) list \<Rightarrow> (real \<times> real \<times> string) list \<times> real \<times> string" where
  "shade_loop prev_x prev_material [] = ([], prev_x, prev_material)"
| "shade_loop prev_x prev_material ((x_pos, mat) # rest) =
     (case shade_loop x_pos mat rest of
        (ps, px, pm) \<Rightarrow>
          ((if prev_x < x_pos then [(prev_x, x_pos, material_color prev_material)] else []) @ ps,
           px, pm))"

text \<open>
  \<^verbatim>\<open>update_background_colors()\<close>, lines 464-518; \<open>start\<close> is the session start time of
  \<^verbatim>\<open>main\<close>. \<^verbatim>\<open>sorted\<close> orders the pairs by time, then by material name.
\<close>

definition update_background_colors :: "LiveData \<Rightarrow> real \<Rightarrow> bg_action" where
  "update_background_colors d start =
     (if times_dq d = [] \<or> material_transitions d = [] then
        SetFacecolor (material_color (current_material d))
      else
        let start_time = Min (set (times_dq d));
            end_time = Max (set (times_dq d));
            time_range = map (\<lambda>t. t - start) (times_dq d);
            current_x_min = Min (set time_range);
            current_x_max = Max (set time_range);
            transitions = sort (map (\<lambda>(t, m). (t - start, m))
                            (filter (\<lambda>(t, m). start_time \<le> t \<and> t \<le> end_time)
                               (material_transitions d)));
            transitions =
              (if transitions = [] \<or> snd (last transitions) \<noteq> current_material d
               then transitions @ [(current_x_max, current_material d)] else transitions);
            prev_x = current_x_min;
            prev_material = (if transitions \<noteq> [] then snd (hd transitions) else ''baseline'')
        in case shade_loop prev_x prev_material transitions of
             (ps, px, pm) \<Rightarrow>
               Patches (ps @ (if px < current_x_max
                              then [(px, current_x_max, material_color pm)] else [])))"

subsection \<open>Python strings\<close>

text \<open>
  A \<^verbatim>\<open>str\<close> is a list of code points. The ASCII range is classified here; for the code
  points from 128 on, the classification is that of the Unicode database of the running
  interpreter, which the model takes as a parameter: whether a character is white space,
  upper case, lower case or title case, and its value as a decimal digit.
\<close>

type_synonym pystr = "nat list"

record ucd =
  uc_isspace :: "nat \<Rightarrow> bool"
  uc_isupper :: "nat \<Rightarrow> bool"
  uc_islower :: "nat \<Rightarrow> bool"
  uc_istitle :: "nat \<Rightarrow> bool"
  uc_decimal :: "nat \<Rightarrow> nat option"

text \<open>A database in which no character beyond ASCII has any of these properties.\<close>

definition ascii_ucd :: ucd where
  "ascii_ucd =
     \<lparr>uc_isspace = (\<lambda>c. False), uc_isupper = (\<lambda>c. False), uc_islower = (\<lambda>c. False),
      uc_istitle = (\<lambda>c. False), uc_decimal = (\<lambda>c. None)\<rparr>"

text \<open>A string literal of the source, as code points.\<close>

definition py :: "string \<Rightarrow> pystr" where
  "py s = map of_char s"

definition ch_isspace :: "ucd \<Rightarrow> nat \<Rightarrow> bool" where
  "ch_isspace u c =
     (if c < 128 then (9 \<le> c \<and> c \<le> 13) \<or> (28 \<le> c \<and> c \<le> 32) else uc_isspace u c)"

definition ch_isupper :: "ucd \<Rightarrow> nat \<Rightarrow> bool" where
  "ch_isupper u c = (if c < 128 then 65 \<le> c \<and> c \<le> 90 else uc_isupper u c)"

definition ch_islower :: "ucd \<Rightarrow> nat \<Rightarrow> bool" where
  "ch_islower u c = (if c < 128 then 97 \<le> c \<and> c \<le> 122 else uc_islower u c)"

definition ch_istitle :: "ucd \<Rightarrow> nat \<Rightarrow> bool" where
  "ch_istitle u c = (if c < 128 then False else uc_istitle u c)"

definition ch_decimal :: "ucd \<Rightarrow> nat \<Rightarrow> nat option" where
  "ch_decimal u c =
     (if c < 128 then (if 48 \<le> c \<and> c \<le> 57 then Some (c - 48) else None) else uc_decimal u c)"

definition ch_isdigit :: "ucd \<Rightarrow> nat \<Rightarrow> bool" where
  "ch_isdigit u c = (ch_decimal u c \<noteq> None)"

text \<open>
  The line boundaries of \<^verbatim>\<open>str.splitlines\<close>: LF, VT, FF, CR, FS, GS, RS, NEL, LS, PS; a CR
  directly followed by LF is one boundary.
\<close>

definition is_linebreak :: "nat \<Rightarrow> bool" where
  "is_linebreak c = (c \<in> set [10, 11, 12, 13, 28, 29, 30, 133, 8232, 8233])"

text \<open>\<open>splitlines_from cur rest\<close>: \<open>cur\<close> is the line read so far.\<close>

fun splitlines_from :: "pystr \<Rightarrow> pystr \<Rightarrow> pystr list" where
  "splitlines_from cur [] = (if cur = [] then [] else [cur])"
| "splitlines_from cur (c # cs) =
     (if c = 13 then
        (case cs of
           [] \<Rightarrow> [cur]
         | c' # cs' \<Rightarrow> if c' = 10 then cur # splitlines_from [] cs' else cur # splitlines_from [] cs)
      else if is_linebreak c then cur # splitlines_from [] cs
      else splitlines_from (cur @ [c]) cs)"

definition splitlines :: "pystr \<Rightarrow> pystr list" where
  "splitlines txt = splitlines_from [] txt"

text \<open>\<^verbatim>\<open>s.strip()\<close>\<close>

definition strip :: "ucd \<Rightarrow> pystr \<Rightarrow> pystr" where
  "strip u s = rev (dropWhile (ch_isspace u) (rev (dropWhile (ch_isspace u) s)))"

text \<open>\<^verbatim>\<open>s.startswith(p)\<close>\<close>

definition startswith :: "pystr \<Rightarrow> pystr \<Rightarrow> bool" where
  "startswith p s = (take (length p) s = p)"

text \<open>\<^verbatim>\<open>sub in s\<close>\<close>

fun contains :: "pystr \<Rightarrow> pystr \<Rightarrow> bool" where
  "contains sub [] = (sub = [])"
| "contains sub (c # cs) = (startswith sub (c # cs) \<or> contains sub cs)"

text \<open>
  \<^verbatim>\<open>s.isupper()\<close>: no lower-case or title-case character, and at least one upper-case one.
\<close>

definition isupper :: "ucd \<Rightarrow> pystr \<Rightarrow> bool" where
  "isupper u s =
     (list_all (\<lambda>c. \<not> ch_islower u c \<and> \<not> ch_istitle u c) s \<and> list_ex (ch_isupper u) s)"

text \<open>\<^verbatim>\<open>s.split(sep)\<close> for a single-character separator.\<close>

fun split_on :: "nat \<Rightarrow> pystr \<Rightarrow> pystr list" where
  "split_on sep [] = [[]]"
| "split_on sep (c # cs) =
     (if c = sep then [] # split_on sep cs
      else (case split_on sep cs of [] \<Rightarrow> [[c]] | p # ps \<Rightarrow> (c # p) # ps))"

text \<open>The value \<^verbatim>\<open>float\<close> gives to a run of decimal digits.\<close>

definition digits_value :: "ucd \<Rightarrow> pystr \<Rightarrow> nat" where
  "digits_value u ds = foldl (\<lambda>acc c. 10 * acc + (case ch_decimal u c of None \<Rightarrow> 0 | Some k \<Rightarrow> k)) 0 ds"

text \<open>
  \<^verbatim>\<open>float(re.findall(r"[-]?\d+", s)[0])\<close>: the leftmost match of an optional minus sign
  and a longest run of decimal digits, as a number; \<open>None\<close> when nothing matches and the
  indexing raises IndexError.
\<close>

fun first_int :: "ucd \<Rightarrow> pystr \<Rightarrow> real option" where
  "first_int u [] = None"
| "first_int u (c # cs) =
     (if c = 45 \<and> cs \<noteq> [] \<and> ch_isdigit u (hd cs)
      then Some (- real (digits_value u (takeWhile (ch_isdigit u) cs)))
      else if ch_isdigit u c
      then Some (real (digits_value u (takeWhile (ch_isdigit u) (c # cs))))
      else first_int u cs)"

subsection \<open>The parser: \<^verbatim>\<open>parse_wdutil_output\<close>\<close>

definition WIFI :: pystr where "WIFI = py ''WIFI''"
definition RSSI :: pystr where "RSSI = py ''RSSI''"
definition NOISE :: pystr where "NOISE = py ''Noise''"
definition COLON :: nat where "COLON = 58"

text \<open>Four em dashes (U+2014), the start of a separator line.\<close>

definition DASHES :: pystr where "DASHES = [8212, 8212, 8212, 8212]"

text \<open>The local variables of the scan.\<close>

record scan =
  sc_rssi :: "real option"
  sc_noise :: "real option"
  in_wifi_section :: bool

definition scan_init :: scan where
  "scan_init = \<lparr>sc_rssi = None, sc_noise = None, in_wifi_section = False\<rparr>"

text \<open>
  The body of the two \<^verbatim>\<open>try\<close> blocks:
  \<^verbatim>\<open>value_part = line.split(":")[1].strip(); float(re.findall(r"[-]?\d+", value_part)[0])\<close>.
\<close>

definition extract_value :: "ucd \<Rightarrow> pystr \<Rightarrow> py_error + real" where
  "extract_value u line =
     (case split_on COLON line of
        p0 # p1 # ps \<Rightarrow>
          (case first_int u (strip u p1) of None \<Rightarrow> Inl IndexError | Some v \<Rightarrow> Inr v)
      | _ \<Rightarrow> Inl IndexError)"

text \<open>The test of line 58 for a new section header.\<close>

definition is_section_header :: "ucd \<Rightarrow> pystr \<Rightarrow> bool" where
  "is_section_header u line \<longleftrightarrow>
     length line > 0 \<and> \<not> startswith DASHES line \<and> isupper u line \<and> COLON \<notin> set line"

text \<open>One pass of the loop body of lines 46-76; \<^verbatim>\<open>except: pass\<close> keeps the old value.\<close>

definition scan_line :: "ucd \<Rightarrow> scan \<Rightarrow> pystr \<Rightarrow> scan" where
  "scan_line u st raw =
     (let line = strip u raw in
      if line = WIFI then st\<lparr>in_wifi_section := True\<rparr>
      else if startswith DASHES line \<and> in_wifi_section st then st
      else if in_wifi_section st \<and> is_section_header u line then st\<lparr>in_wifi_section := False\<rparr>
      else if in_wifi_section st then
        (if contains RSSI line \<and> COLON \<in> set line then
           (case extract_value u line of Inl e \<Rightarrow> st | Inr v \<Rightarrow> st\<lparr>sc_rssi := Some v\<rparr>)
         else if contains NOISE line \<and> COLON \<in> set line then
           (case extract_value u line of Inl e \<Rightarrow> st | Inr v \<Rightarrow> st\<lparr>sc_noise := Some v\<rparr>)
         else st)
      else st)"

text \<open>Lines 78-80: the result, or ValueError when a value is missing.\<close>

definition scan_result :: "scan \<Rightarrow> py_error + real \<times> real" where
  "scan_result st =
     (case sc_rssi st of
        None \<Rightarrow> Inl ValueError
      | Some r \<Rightarrow> (case sc_noise st of None \<Rightarrow> Inl ValueError | Some n \<Rightarrow> Inr (r, n)))"

definition parse_lines :: "ucd \<Rightarrow> pystr list \<Rightarrow> py_error + real \<times> real" where
  "parse_lines u ls = scan_result (foldl (scan_line u) scan_init ls)"

definition parse_wdutil_output :: "ucd \<Rightarrow> pystr \<Rightarrow> py_error + real \<times> real" where
  "parse_wdutil_output u txt = parse_lines u (splitlines txt)"

text \<open>
  \<^verbatim>\<open>read_wifi_metrics_macos()\<close>; \<open>out\<close> is what \<^verbatim>\<open>subprocess.check_output\<close> did: the text of
  the command, or the exception it raised.
\<close>

definition read_wifi_metrics_macos :: "ucd \<Rightarrow> py_error + pystr \<Rightarrow> py_error + real \<times> real" where
  "read_wifi_metrics_macos u out =
     (case out of Inl e \<Rightarrow> Inl e | Inr txt \<Rightarrow> parse_wdutil_output u txt)"

text \<open>
  The WIFI sub-section of a text, as the scan delimits it: the stripped lines that are
  read while \<^verbatim>\<open>in_wifi_section\<close> is set, without the \<^verbatim>\<open>WIFI\<close> marker lines and the
  separator lines. \<open>inside\<close> is the flag before the first line.
\<close>

fun wifi_section :: "ucd \<Rightarrow> bool \<Rightarrow> pystr list \<Rightarrow> pystr list" where
  "wifi_section u inside [] = []"
| "wifi_section u inside (raw # rest) =
     (let line = strip u raw in
      if line = WIFI then wifi_section u True rest
      else if inside \<and> startswith DASHES line then wifi_section u True rest
      else if inside \<and> is_section_header u line then wifi_section u False rest
      else if inside then line # wifi_section u True rest
      else wifi_section u False rest)"





text \<open>
  The two readings of "the integer after a colon": everything after the first colon of a
  line, and the part of it before the next colon (\<^verbatim>\<open>line.split(":")[1]\<close>).
\<close>

definition after_first_colon :: "pystr \<Rightarrow> pystr" where
  "after_first_colon line = tl (dropWhile (\<lambda>c. c \<noteq> COLON) line)"

definition first_colon_field :: "pystr \<Rightarrow> pystr" where
  "first_colon_field line = takeWhile (\<lambda>c. c \<noteq> COLON) (after_first_colon line)"

subsection \<open>The sampling tick: \<^verbatim>\<open>update\<close>\<close>

text \<open>
  What one tick leaves behind: the store, the errors printed, and the background drawn
  (none when the tick returns early). The line, axis and text updates of the chart do
  not touch the store and are left out.
\<close>

record tick =
  store :: LiveData
  printed :: "py_error list"
  background :: "bg_action option"

text \<open>
  \<^verbatim>\<open>update(_frame)\<close>, lines 578-618; \<open>ts\<close> is \<^verbatim>\<open>time.time()\<close> and \<open>out\<close> the outcome of the
  command. An exception of \<^verbatim>\<open>data.append\<close> is not caught.
\<close>

definition update :: "ucd \<Rightarrow> bool \<Rightarrow> real \<Rightarrow> LiveData \<Rightarrow> real \<Rightarrow> py_error + pystr \<Rightarrow> py_error + tick" where
  "update u stats_view start d ts out =
     (if stats_view then Inr \<lparr>store = d, printed = [], background = None\<rparr>
      else
        (case read_wifi_metrics_macos u out of
           Inl e \<Rightarrow> Inr \<lparr>store = d, printed = [e], background = None\<rparr>
         | Inr (r, n) \<Rightarrow>
             (case LiveData_append d ts r n of
                Inl e \<Rightarrow> Inl e
              | Inr d' \<Rightarrow>
                  Inr \<lparr>store = d', printed = [], background = Some (update_background_colors d' start)\<rparr>)))"

section \<open>Properties of the Live Data Store\<close>

subsection \<open>Eviction\<close>








subsection \<open>Retention window\<close>



subsection \<open>Derived SNR\<close>







subsection \<open>Clearing\<close>

text \<open>
  C3. \<^verbatim>\<open>clear_data\<close> empties the four deques of the Live Series, the Transition list and
  the per-material accumulators, sets the material to \<open>baseline\<close>, keeps the band, and
  appends one sentinel row to the Export Log, whose earlier rows stay as they were.
\<close>

theorem clear_data_resets:
  "times_dq (clear_data d now) = [] \<and> rssi (clear_data d now) = [] \<and>
   noise (clear_data d now) = [] \<and> snr (clear_data d now) = [] \<and>
   material_transitions (clear_data d now) = [] \<and>
   snr_by_material (clear_data d now) = Map.empty \<and>
   current_material (clear_data d now) = ''baseline'' \<and>
   current_band (clear_data d now) = current_band d \<and>
   csv_rows (clear_data d now) = csv_rows d @
     [\<lparr>timestamp = now, band = current_band d, material = ''--- CLEARED ---'',
       rssi_dbm = 0, noise_dbm = 0, snr_db = 0\<rparr>]"
  by (simp add: clear_data_def)

subsection \<open>Aligned deques\<close>




section \<open>Properties of the viewport\<close>

text \<open>
  A scroll that changes the viewport leaves a width between 10 and the retention window:
  \<^verbatim>\<open>on_scroll\<close> clamps with \<^verbatim>\<open>max(10, min(new_width, ROLLING_WINDOW_SEC))\<close>.
\<close>

lemma on_scroll_width_clamped:
  assumes "on_scroll v event = Inr v'" and "\<not> is_stats_view v" and "inaxes event"
  shows "10 \<le> viewport_width v' \<and> viewport_width v' \<le> ROLLING_WINDOW_SEC"
  using assms
  by (auto simp: on_scroll_def viewport_width_def Let_def ROLLING_WINDOW_SEC_def split: if_splits)

text \<open>
  The \<^verbatim>\<open>down\<close> key clamps the width from above only, the \<^verbatim>\<open>up\<close> key not at all.
\<close>

lemma down_key_width:
  assumes "\<not> is_stats_view v"
  shows "viewport_width (on_key_press v ''down'') = min (viewport_width v * 1.25) ROLLING_WINDOW_SEC"
  using assms by (simp add: on_key_press_def viewport_width_def Let_def)

lemma up_key_width:
  assumes "\<not> is_stats_view v"
  shows "viewport_width (on_key_press v ''up'') = viewport_width v * 0.8"
  using assms by (simp add: on_key_press_def viewport_width_def Let_def)

text \<open>
  C4. The claim is that no sequence of zoom actions (scroll wheel, \<^verbatim>\<open>up\<close> and \<^verbatim>\<open>down\<close>
  keys) takes the viewport width out of the interval from 10 to 300 seconds. The code
  run on one such sequence: from the limits \<open>(0, 12)\<close> a scroll zoom-in gives \<open>(1, 11)\<close>,
  the smallest width a scroll allows, and the \<^verbatim>\<open>up\<close> key then gives \<open>(2, 10)\<close>, a width
  of 8 seconds.
\<close>

theorem up_key_zooms_below_ten:
  "on_scroll \<lparr>xlim = (0, 12), display_window = 60, auto_scroll = True, is_stats_view = False\<rparr>
      \<lparr>inaxes = True, button = ''up'', xdata = None\<rparr>
     = Inr \<lparr>xlim = (1, 11), display_window = 10, auto_scroll = False, is_stats_view = False\<rparr> \<and>
   on_key_press \<lparr>xlim = (1, 11), display_window = 10, auto_scroll = False, is_stats_view = False\<rparr> ''up''
     = \<lparr>xlim = (2, 10), display_window = 8, auto_scroll = False, is_stats_view = False\<rparr> \<and>
   viewport_width \<lparr>xlim = (2, 10), display_window = 8, auto_scroll = False, is_stats_view = False\<rparr> = 8 \<and>
   (8::real) < 10"
  by (simp add: on_scroll_def on_key_press_def viewport_width_def ROLLING_WINDOW_SEC_def Let_def)

section \<open>Properties of the background shading\<close>

text \<open>
  C5. With samples from elapsed time 0 to 30, the Transition list
  \<open>[(10, wood), (25, glass)]\<close> (elapsed times) and current material glass, the shading
  is three spans: 0 to 10 in the colour of wood, the material of the first transition,
  10 to 25 in the colour of wood, and 25 to 30 in the colour of glass.
\<close>

theorem background_intervals:
  assumes "times_dq d \<noteq> []"
    and "Min (set (times_dq d)) = start" and "Max (set (times_dq d)) = start + 30"
    and "material_transitions d = [(start + 10, ''wood''), (start + 25, ''glass'')]"
    and "current_material d = ''glass''"
  shows "update_background_colors d start =
       Patches [(0, 10, material_color ''wood''), (10, 25, material_color ''wood''),
                (25, 30, material_color ''glass'')] \<and>
     material_color ''wood'' = ''#f4e4bc'' \<and> material_color ''glass'' = ''#f1f8e9''"
proof -
  have fin: "finite (set (times_dq d))" "set (times_dq d) \<noteq> {}" using assms(1) by simp_all
  have m: "mono (\<lambda>t::real. t - start)" by (simp add: mono_def)
  have mn: "Min (set (map (\<lambda>t. t - start) (times_dq d))) = 0"
    using mono_Min_commute [OF m fin] assms(2) by simp
  have mx: "Max (set (map (\<lambda>t. t - start) (times_dq d))) = 30"
    using mono_Max_commute [OF m fin] assms(3) by simp
  have col: "material_color ''wood'' = ''#f4e4bc''" "material_color ''glass'' = ''#f1f8e9''"
    by (simp_all add: material_color_def MATERIAL_COLORS_def)
  show ?thesis
    unfolding update_background_colors_def Let_def mn mx
    using assms(1) by (simp add: assms(2-5) col)
qed

theorem background_intervals_witness:
  "[100, 112, 130 :: real] \<noteq> [] \<and>
   Min (set [100, 112, 130 :: real]) = 100 \<and> Max (set [100, 112, 130 :: real]) = 100 + 30 \<and>
   update_background_colors
     ((LiveData_init 300)\<lparr>times_dq := [100, 112, 130],
        material_transitions := [(100 + 10, ''wood''), (100 + 25, ''glass'')],
        current_material := ''glass''\<rparr>) 100
     = Patches [(0, 10, ''#f4e4bc''), (10, 25, ''#f4e4bc''), (25, 30, ''#f1f8e9'')]"
proof -
  let ?d = "(LiveData_init 300)\<lparr>times_dq := [100, 112, 130],
        material_transitions := [(100 + 10, ''wood''), (100 + 25, ''glass'')],
        current_material := ''glass''\<rparr>"
  have h: "times_dq ?d \<noteq> []" "Min (set (times_dq ?d)) = 100" "Max (set (times_dq ?d)) = 100 + 30"
    "material_transitions ?d = [(100 + 10, ''wood''), (100 + 25, ''glass'')]"
    "current_material ?d = ''glass''"
    by simp_all
  from background_intervals [OF h] h(1-3) show ?thesis by simp
qed

section \<open>Properties of the parser\<close>

text \<open>The definitions that evaluate the parser on a concrete text.\<close>

lemmas parser_defs =
  parse_wdutil_output_def parse_lines_def splitlines_def py_def is_linebreak_def
  scan_line_def scan_init_def scan_result_def strip_def ch_isspace_def WIFI_def RSSI_def NOISE_def
  DASHES_def COLON_def startswith_def is_section_header_def isupper_def ch_islower_def
  ch_isupper_def ch_istitle_def extract_value_def ch_isdigit_def ch_decimal_def digits_value_def
  Let_def












subsection \<open>Extraction of a value\<close>

lemma split_on_unfold:
  "split_on sep s =
     takeWhile (\<lambda>c. c \<noteq> sep) s #
       (if sep \<in> set s then split_on sep (tl (dropWhile (\<lambda>c. c \<noteq> sep) s)) else [])"
  by (induction s) auto

lemma split_on_second:
  assumes "COLON \<in> set line"
  shows "\<exists>p0 ps. split_on COLON line = p0 # first_colon_field line # ps"
proof -
  have "split_on COLON line = takeWhile (\<lambda>c. c \<noteq> COLON) line # split_on COLON (after_first_colon line)"
    using assms split_on_unfold [of COLON line] by (simp add: after_first_colon_def)
  moreover have "\<exists>ps. split_on COLON (after_first_colon line) = first_colon_field line # ps"
    using split_on_unfold [of COLON "after_first_colon line"] by (simp add: first_colon_field_def)
  ultimately show ?thesis by auto
qed

lemma extract_value_field:
  assumes "COLON \<in> set line"
  shows "extract_value u line =
     (case first_int u (strip u (first_colon_field line)) of
        None \<Rightarrow> Inl IndexError | Some v \<Rightarrow> Inr v)"
  using split_on_second [OF assms] by (auto simp: extract_value_def)

lemma colon_not_marker:
  assumes "COLON \<in> set line"
  shows "line \<noteq> WIFI" and "\<not> is_section_header u line"
  using assms by (auto simp: WIFI_def py_def COLON_def is_section_header_def)

lemma sample_text_parsed:
  "parse_wdutil_output u (py ''WIFI\<newline>RSSI : -40 dBm\<newline>Noise : -90 dBm\<newline>'') = Inr (- 40, - 90)"
  by (simp add: parser_defs)

text \<open>
  C7, as amended. On a line of the WIFI sub-section (not a separator line) that contains
  \<open>RSSI\<close> and a colon, the parser takes the first signed integer in the text between the
  first colon and the next colon (or the end of the line) as the RSSI value, and keeps the
  old value when there is none; a line that contains \<open>Noise\<close> and a colon but not \<open>RSSI\<close>
  sets the Noise value in the same way. The sample text of the specification is parsed to
  \<open>(-40, -90)\<close>.
\<close>

theorem value_between_first_two_colons:
  assumes "in_wifi_section st" and "line = strip u raw"
    and "\<not> startswith DASHES line" and "COLON \<in> set line"
  shows "(contains RSSI line \<longrightarrow>
            scan_line u st raw =
              (case first_int u (strip u (first_colon_field line)) of
                 None \<Rightarrow> st | Some v \<Rightarrow> st\<lparr>sc_rssi := Some v\<rparr>)) \<and>
         (\<not> contains RSSI line \<and> contains NOISE line \<longrightarrow>
            scan_line u st raw =
              (case first_int u (strip u (first_colon_field line)) of
                 None \<Rightarrow> st | Some v \<Rightarrow> st\<lparr>sc_noise := Some v\<rparr>)) \<and>
         parse_wdutil_output u (py ''WIFI\<newline>RSSI : -40 dBm\<newline>Noise : -90 dBm\<newline>'')
            = Inr (- 40, - 90)"
  using assms colon_not_marker(1) [OF assms(4)] colon_not_marker(2) [OF assms(4), of u]
    extract_value_field [OF assms(4), of u]
  by (auto simp: scan_line_def Let_def sample_text_parsed split: option.splits)

theorem value_between_first_two_colons_witness:
  "in_wifi_section \<lparr>sc_rssi = None, sc_noise = None, in_wifi_section = True\<rparr> \<and>
   py ''RSSI : -55 dBm : 7'' = strip ascii_ucd (py ''    RSSI : -55 dBm : 7  '') \<and>
   \<not> startswith DASHES (py ''RSSI : -55 dBm : 7'') \<and>
   COLON \<in> set (py ''RSSI : -55 dBm : 7'') \<and>
   contains RSSI (py ''RSSI : -55 dBm : 7'') \<and>
   scan_line ascii_ucd \<lparr>sc_rssi = None, sc_noise = None, in_wifi_section = True\<rparr>
       (py ''    RSSI : -55 dBm : 7  '')
     = \<lparr>sc_rssi = Some (- 55), sc_noise = None, in_wifi_section = True\<rparr>"
proof -
  have h: "in_wifi_section \<lparr>sc_rssi = None, sc_noise = None, in_wifi_section = True\<rparr>"
    "py ''RSSI : -55 dBm : 7'' = strip ascii_ucd (py ''    RSSI : -55 dBm : 7  '')"
    "\<not> startswith DASHES (py ''RSSI : -55 dBm : 7'')"
    "COLON \<in> set (py ''RSSI : -55 dBm : 7'')"
    by (simp_all add: parser_defs)
  have c: "contains RSSI (py ''RSSI : -55 dBm : 7'')" by (simp add: parser_defs)
  have f: "first_int ascii_ucd (strip ascii_ucd (first_colon_field (py ''RSSI : -55 dBm : 7''))) = Some (- 55)"
    by (simp add: parser_defs first_colon_field_def after_first_colon_def)
  from value_between_first_two_colons [OF h] c f h c show ?thesis by simp
qed

text \<open>
  The text used below is ASCII, so what the parser does with it does not depend on the
  Unicode database.
\<close>

lemma later_colon_any_database:
  "first_int u (after_first_colon (py ''RSSI : x : -40'')) = Some (- 40) \<and>
   parse_wdutil_output u (py ''WIFI\<newline>RSSI : x : -40\<newline>Noise : -90 dBm\<newline>'')
     = Inl ValueError"
  by (simp add: parser_defs after_first_colon_def)

text \<open>
  C7 as stated fails: the line \<^verbatim>\<open>RSSI : x : -40\<close> of a WIFI sub-section contains the label
  and a colon, and the first signed integer after a colon on it is -40, yet the parser
  reads only \<^verbatim>\<open>x\<close>, finds no RSSI and raises.
\<close>

theorem later_colon_integer_counterexample:
  "contains RSSI (py ''RSSI : x : -40'') \<and> COLON \<in> set (py ''RSSI : x : -40'') \<and>
   first_int ascii_ucd (after_first_colon (py ''RSSI : x : -40'')) = Some (- 40) \<and>
   wifi_section ascii_ucd False (splitlines (py ''WIFI\<newline>RSSI : x : -40\<newline>Noise : -90 dBm\<newline>''))
     = [py ''RSSI : x : -40'', py ''Noise : -90 dBm''] \<and>
   parse_wdutil_output ascii_ucd (py ''WIFI\<newline>RSSI : x : -40\<newline>Noise : -90 dBm\<newline>'')
     = Inl ValueError"
  by (simp add: parser_defs after_first_colon_def)

subsection \<open>Lines outside the WIFI sub-section\<close>

lemma scan_line_outside:
  assumes "\<not> in_wifi_section st" and "strip u raw \<noteq> WIFI"
  shows "scan_line u st raw = st"
  using assms by (simp add: scan_line_def Let_def)

lemma scan_lines_outside:
  assumes "\<not> in_wifi_section st" and "\<forall>l\<in>set ls. strip u l \<noteq> WIFI"
  shows "foldl (scan_line u) st ls = st"
  using assms by (induction ls) (simp_all add: scan_line_outside)

lemma scan_line_header_leaves:
  assumes "is_section_header u (strip u h)" and "strip u h \<noteq> WIFI"
  shows "\<not> in_wifi_section (scan_line u st h)"
  using assms by (auto simp: scan_line_def Let_def is_section_header_def)

text \<open>
  C8. Lines outside the WIFI sub-section never reach the result: the lines before the
  first \<^verbatim>\<open>WIFI\<close> marker, and the lines after a section header such as \<^verbatim>\<open>BLUETOOTH\<close> up to
  the next \<^verbatim>\<open>WIFI\<close> marker, can be deleted from the text without changing what the parser
  returns, whatever RSSI or Noise values they hold.
\<close>

theorem outside_lines_ignored:
  assumes "\<forall>l\<in>set outside. strip u l \<noteq> WIFI"
  shows "(splitlines txt = outside @ rest \<longrightarrow>
            parse_wdutil_output u txt = parse_lines u rest) \<and>
         (splitlines txt = before @ [h] @ outside @ rest \<and>
          is_section_header u (strip u h) \<and> strip u h \<noteq> WIFI \<longrightarrow>
            parse_wdutil_output u txt = parse_lines u (before @ [h] @ rest))"
proof -
  have "foldl (scan_line u) scan_init (outside @ rest) = foldl (scan_line u) scan_init rest"
    using scan_lines_outside [where st = scan_init and u = u and ls = outside] assms by (simp add: scan_init_def)
  moreover have "foldl (scan_line u) scan_init (before @ [h] @ outside @ rest)
      = foldl (scan_line u) scan_init (before @ [h] @ rest)"
    if "is_section_header u (strip u h)" "strip u h \<noteq> WIFI"
  proof -
    let ?st = "scan_line u (foldl (scan_line u) scan_init before) h"
    have "\<not> in_wifi_section ?st" using that by (rule scan_line_header_leaves)
    then have "foldl (scan_line u) ?st outside = ?st"
      using assms by (rule scan_lines_outside)
    then show ?thesis by simp
  qed
  ultimately show ?thesis by (auto simp: parse_wdutil_output_def parse_lines_def)
qed

theorem outside_lines_ignored_witness:
  "strip ascii_ucd (py ''RSSI : -10 dBm'') \<noteq> WIFI \<and>
   strip ascii_ucd (py ''Noise : -20 dBm'') \<noteq> WIFI \<and>
   splitlines (py ''WIFI\<newline>RSSI : -40 dBm\<newline>Noise : -90 dBm\<newline>BLUETOOTH\<newline>RSSI : -10 dBm\<newline>Noise : -20 dBm\<newline>'')
     = [py ''WIFI'', py ''RSSI : -40 dBm'', py ''Noise : -90 dBm''] @ [py ''BLUETOOTH''] @
       [py ''RSSI : -10 dBm'', py ''Noise : -20 dBm''] @ [] \<and>
   is_section_header ascii_ucd (strip ascii_ucd (py ''BLUETOOTH'')) \<and>
   strip ascii_ucd (py ''BLUETOOTH'') \<noteq> WIFI \<and>
   parse_wdutil_output ascii_ucd
     (py ''WIFI\<newline>RSSI : -40 dBm\<newline>Noise : -90 dBm\<newline>BLUETOOTH\<newline>RSSI : -10 dBm\<newline>Noise : -20 dBm\<newline>'')
     = Inr (- 40, - 90)"
proof -
  let ?txt = "py ''WIFI\<newline>RSSI : -40 dBm\<newline>Noise : -90 dBm\<newline>BLUETOOTH\<newline>RSSI : -10 dBm\<newline>Noise : -20 dBm\<newline>''"
  let ?before = "[py ''WIFI'', py ''RSSI : -40 dBm'', py ''Noise : -90 dBm'']"
  let ?outside = "[py ''RSSI : -10 dBm'', py ''Noise : -20 dBm'']"
  have o: "\<forall>l\<in>set ?outside. strip ascii_ucd l \<noteq> WIFI"
    by (simp add: parser_defs)
  have s: "splitlines ?txt = ?before @ [py ''BLUETOOTH''] @ ?outside @ []"
    by (simp add: parser_defs)
  have h: "is_section_header ascii_ucd (strip ascii_ucd (py ''BLUETOOTH''))"
    "strip ascii_ucd (py ''BLUETOOTH'') \<noteq> WIFI"
    by (simp_all add: parser_defs)
  have p: "parse_lines ascii_ucd (?before @ [py ''BLUETOOTH''] @ []) = Inr (- 40, - 90)"
    by (simp add: parser_defs)
  from outside_lines_ignored [OF o, of ?txt "[]" ?before "py ''BLUETOOTH''"] s h p
  have "parse_wdutil_output ascii_ucd ?txt = Inr (- 40, - 90)" by simp
  with o s h show ?thesis by simp
qed

section \<open>Properties of the sampling tick\<close>

text \<open>
  C9. A tick in live view whose acquisition fails, because the command raised or because
  the parser raised, returns normally with the store exactly as it was: nothing is
  appended, and the error is printed.
\<close>

theorem failed_tick_keeps_store:
  assumes "\<not> stats_view" and "read_wifi_metrics_macos u out = Inl e"
  shows "update u stats_view start d ts out = Inr \<lparr>store = d, printed = [e], background = None\<rparr>"
  using assms by (simp add: update_def)

theorem failed_tick_keeps_store_witness:
  "\<not> False \<and>
   read_wifi_metrics_macos ascii_ucd (Inr (py ''WIFI\<newline>RSSI : -40 dBm\<newline>'')) = Inl ValueError \<and>
   update ascii_ucd False 0 (LiveData_init 300) 5 (Inr (py ''WIFI\<newline>RSSI : -40 dBm\<newline>''))
     = Inr \<lparr>store = LiveData_init 300, printed = [ValueError], background = None\<rparr>"
proof -
  have r: "read_wifi_metrics_macos ascii_ucd (Inr (py ''WIFI\<newline>RSSI : -40 dBm\<newline>'')) = Inl ValueError"
    by (simp add: read_wifi_metrics_macos_def parser_defs)
  from failed_tick_keeps_store [of False ascii_ucd _ ValueError 0 "LiveData_init 300" 5] r
  show ?thesis by simp
qed

end
